theory Spec2Isabelle
  imports Complex_Main "HOL-Library.Multiset"
begin

section \<open>Shared vocabulary: exceptions and string formatting\<close>

text \<open>
  The Python exceptions the modelled code raises or catches. \<open>ConnectionError\<close> is a
  subclass of \<open>OSError\<close>, and \<open>IOError\<close> is an alias of \<open>OSError\<close>; the constructor
  \<open>IOError\<close> below stands for an \<open>OSError\<close> that is not a \<open>ConnectionError\<close>, which is
  what the second \<open>except\<close> clause of the retry loops receives. Every constructor is a
  subclass of \<open>Exception\<close>. The argument is the message, \<open>str(e)\<close>.
\<close>

datatype exn =
    ConnectionError string
  | IOError string
  | ValueError string
  | KeyError string
  | OtherError string

fun exn_str :: "exn \<Rightarrow> string" where
  "exn_str (ConnectionError m) = m"
| "exn_str (IOError m) = m"
| "exn_str (ValueError m) = m"
| "exn_str (KeyError m) = m"
| "exn_str (OtherError m) = m"

text \<open>Decimal formatting of an integer, as \<open>str(i)\<close> and an f-string field do.\<close>

definition digit_char :: "nat \<Rightarrow> char" where
  "digit_char d = char_of (48 + d)"

fun str_nat :: "nat \<Rightarrow> string" where
  "str_nat n = (if n < 10 then [digit_char n] else str_nat (n div 10) @ [digit_char (n mod 10)])"

declare str_nat.simps [simp del]

definition str_int :: "int \<Rightarrow> string" where
  "str_int i = (if i < 0 then CHR ''-'' # str_nat (nat (- i)) else str_nat (nat i))"

text \<open>\<open>str\<close> of a list of integers: \<open>[0, 1, 2]\<close>.\<close>

fun join_comma :: "string list \<Rightarrow> string" where
  "join_comma [] = []"
| "join_comma [x] = x"
| "join_comma (x # y # ys) = x @ '', '' @ join_comma (y # ys)"

definition str_int_list :: "int list \<Rightarrow> string" where
  "str_int_list xs = ''['' @ join_comma (map str_int xs) @ '']''"


section \<open>Connection manager (connection\_manager.py)\<close>

text \<open>
  The wrapped client is any \<open>BasePLCClient\<close>; its state is the type parameter \<open>'c\<close> and
  its methods are the fields of \<open>client_ops\<close>. A method returns its value or the
  exception it raised, together with the client's new state.
\<close>

record 'c client_ops =
  op_is_connected :: "'c \<Rightarrow> exn + bool"
  op_connect :: "'c \<Rightarrow> (exn + bool) \<times> 'c"
  op_disconnect :: "'c \<Rightarrow> exn option \<times> 'c"
  op_write_coil :: "int \<Rightarrow> bool \<Rightarrow> 'c \<Rightarrow> (exn + bool) \<times> 'c"

text \<open>
  The fields of \<open>PLCConnectionManager\<close>. \<open>consecutive_failures\<close> starts at 0 and is only
  ever incremented by one or reset to 0, so it is a natural number. \<open>sleeps\<close> is the
  effect of \<open>time.sleep\<close>: the delays slept so far, oldest first.
\<close>

record 'c manager =
  client :: 'c
  retry_count :: int
  retry_delay :: real
  auto_reconnect :: bool
  mgr_connected :: bool
  consecutive_failures :: nat
  last_error :: "exn option"
  sleeps :: "real list"

definition DEFAULT_RETRY_COUNT :: int where
  "DEFAULT_RETRY_COUNT = 3"

definition DEFAULT_RETRY_DELAY :: real where
  "DEFAULT_RETRY_DELAY = 1"

definition MAX_BACKOFF_DELAY :: real where
  "MAX_BACKOFF_DELAY = 30"

text \<open>\<open>__init__\<close> with the default arguments spelled out by the caller.\<close>

definition mgr_init :: "'c \<Rightarrow> int \<Rightarrow> real \<Rightarrow> bool \<Rightarrow> 'c manager" where
  "mgr_init c rc rd ar =
     \<lparr>client = c, retry_count = rc, retry_delay = rd, auto_reconnect = ar,
      mgr_connected = False, consecutive_failures = 0, last_error = None, sleeps = []\<rparr>"

text \<open>\<open>_calculate_backoff\<close>.\<close>

definition calculate_backoff :: "'c manager \<Rightarrow> real" where
  "calculate_backoff w =
     (let delay = retry_delay w * 2 ^ (min (consecutive_failures w) 5)
      in min delay MAX_BACKOFF_DELAY)"

text \<open>
  \<open>time.sleep(delay)\<close>: raises \<open>ValueError\<close> on a negative delay, otherwise the delay
  is slept (recorded).
\<close>

definition mgr_sleep :: "real \<Rightarrow> 'c manager \<Rightarrow> exn option \<times> 'c manager" where
  "mgr_sleep d w =
     (if d < 0 then (Some (ValueError ''sleep length must be non-negative''), w)
      else (None, w\<lparr>sleeps := sleeps w @ [d]\<rparr>))"

text \<open>
  The loop \<open>for attempt in range(self.retry_count)\<close> of \<open>ensure_connected\<close>, with the
  code after it. The first numeric argument is the number of iterations still to run,
  the second is the loop variable \<open>attempt\<close>.
\<close>

fun connect_attempts ::
  "'c client_ops \<Rightarrow> nat \<Rightarrow> int \<Rightarrow> 'c manager \<Rightarrow> (exn + bool) \<times> 'c manager" where
  "connect_attempts ops 0 attempt w =
     (Inr False, w\<lparr>consecutive_failures := consecutive_failures w + 1, mgr_connected := False\<rparr>)"
| "connect_attempts ops (Suc k) attempt w =
     (case op_connect ops (client w) of (r, c') \<Rightarrow>
        if r = Inr True then
          (Inr True, w\<lparr>client := c', mgr_connected := True, consecutive_failures := 0,
                        last_error := None\<rparr>)
        else
          let w1 = (case r of Inl e \<Rightarrow> w\<lparr>client := c', last_error := Some e\<rparr>
                            | Inr _ \<Rightarrow> w\<lparr>client := c'\<rparr>)
          in if attempt < retry_count w1 - 1 then
               (case mgr_sleep (calculate_backoff w1) w1 of
                  (Some e, w2) \<Rightarrow> (Inl e, w2)
                | (None, w2) \<Rightarrow> connect_attempts ops k (attempt + 1) w2)
             else connect_attempts ops k (attempt + 1) w1)"

definition ensure_connected :: "'c client_ops \<Rightarrow> 'c manager \<Rightarrow> (exn + bool) \<times> 'c manager" where
  "ensure_connected ops w =
     (case op_is_connected ops (client w) of
        Inl e \<Rightarrow> (Inl e, w)
      | Inr True \<Rightarrow> (Inr True, w\<lparr>mgr_connected := True\<rparr>)
      | Inr False \<Rightarrow>
          if \<not> auto_reconnect w then (Inr False, w)
          else connect_attempts ops (nat (retry_count w)) 0 w)"


text \<open>\<open>disconnect\<close>: an exception of the client is logged and dropped.\<close>

definition mgr_disconnect :: "'c client_ops \<Rightarrow> 'c manager \<Rightarrow> 'c manager" where
  "mgr_disconnect ops w =
     (case op_disconnect ops (client w) of (_, c') \<Rightarrow> w\<lparr>client := c', mgr_connected := False\<rparr>)"

text \<open>
  One iteration of the loop of \<open>read_with_retry\<close> or \<open>write_with_retry\<close> either
  returns from the call, raises out of it, or goes on to the next iteration.
\<close>

datatype 'a outcome = Return 'a | Raise exn | Continue

text \<open>
  The clauses \<open>except ConnectionError\<close> and \<open>except IOError\<close>, which are the same in
  \<open>read_with_retry\<close> and \<open>write_with_retry\<close> but for the text logged. The bare
  \<open>raise\<close> re-raises the exception that was caught. An exception of another class is
  not caught, and neither is one raised by \<open>time.sleep\<close> inside a clause.
\<close>

definition except_clauses :: "exn \<Rightarrow> int \<Rightarrow> 'c manager \<Rightarrow> 'a outcome \<times> 'c manager" where
  "except_clauses e attempt w =
     (case e of
        ConnectionError _ \<Rightarrow>
          let w1 = w\<lparr>mgr_connected := False,
                     consecutive_failures := consecutive_failures w + 1,
                     last_error := Some (ConnectionError ''Connection lost'')\<rparr>
          in if attempt < retry_count w1 - 1 then
               (case mgr_sleep (calculate_backoff w1) w1 of
                  (Some e', w2) \<Rightarrow> (Raise e', w2)
                | (None, w2) \<Rightarrow> (Continue, w2))
             else (Raise e, w1)
      | IOError _ \<Rightarrow>
          let w1 = w\<lparr>last_error := Some e,
                     consecutive_failures := consecutive_failures w + 1\<rparr>
          in if attempt < retry_count w1 - 1 then
               (case mgr_sleep (calculate_backoff w1) w1 of
                  (Some e', w2) \<Rightarrow> (Raise e', w2)
                | (None, w2) \<Rightarrow> (Continue, w2))
             else (Raise e, w1)
      | _ \<Rightarrow> (Raise e, w))"

text \<open>The body of the loop of \<open>read_with_retry\<close>; \<open>func\<close> is the caller's closure.\<close>

definition read_attempt ::
  "'c client_ops \<Rightarrow> ('c \<Rightarrow> (exn + 'a) \<times> 'c) \<Rightarrow> int \<Rightarrow> 'c manager \<Rightarrow> 'a outcome \<times> 'c manager" where
  "read_attempt ops func attempt w =
     (case ensure_connected ops w of
        (Inl e, w1) \<Rightarrow> except_clauses e attempt w1
      | (Inr ok, w1) \<Rightarrow>
          if \<not> ok then except_clauses (ConnectionError ''Unable to connect to PLC'') attempt w1
          else (case func (client w1) of
                  (Inl e, c') \<Rightarrow> except_clauses e attempt (w1\<lparr>client := c'\<rparr>)
                | (Inr result, c') \<Rightarrow>
                    (Return result, w1\<lparr>client := c', consecutive_failures := 0\<rparr>)))"

fun read_attempts ::
  "'c client_ops \<Rightarrow> ('c \<Rightarrow> (exn + 'a) \<times> 'c) \<Rightarrow> nat \<Rightarrow> int \<Rightarrow> 'c manager
     \<Rightarrow> (exn + 'a) \<times> 'c manager" where
  "read_attempts ops func 0 attempt w = (Inl (IOError ''Operation failed after all retries''), w)"
| "read_attempts ops func (Suc k) attempt w =
     (case read_attempt ops func attempt w of
        (Return result, w') \<Rightarrow> (Inr result, w')
      | (Raise e, w') \<Rightarrow> (Inl e, w')
      | (Continue, w') \<Rightarrow> read_attempts ops func k (attempt + 1) w')"

definition read_with_retry ::
  "'c client_ops \<Rightarrow> ('c \<Rightarrow> (exn + 'a) \<times> 'c) \<Rightarrow> 'c manager \<Rightarrow> (exn + 'a) \<times> 'c manager" where
  "read_with_retry ops func w = read_attempts ops func (nat (retry_count w)) 0 w"

text \<open>The body of the loop of \<open>write_with_retry\<close>, and the loop.\<close>

definition write_attempt ::
  "'c client_ops \<Rightarrow> ('c \<Rightarrow> (exn + bool) \<times> 'c) \<Rightarrow> int \<Rightarrow> 'c manager
     \<Rightarrow> bool outcome \<times> 'c manager" where
  "write_attempt ops func attempt w =
     (case ensure_connected ops w of
        (Inl e, w1) \<Rightarrow> except_clauses e attempt w1
      | (Inr ok, w1) \<Rightarrow>
          if \<not> ok then except_clauses (ConnectionError ''Unable to connect to PLC'') attempt w1
          else (case func (client w1) of
                  (Inl e, c') \<Rightarrow> except_clauses e attempt (w1\<lparr>client := c'\<rparr>)
                | (Inr result, c') \<Rightarrow>
                    if result then (Return True, w1\<lparr>client := c', consecutive_failures := 0\<rparr>)
                    else except_clauses (IOError ''Write operation returned False'') attempt
                           (w1\<lparr>client := c'\<rparr>)))"

fun write_attempts ::
  "'c client_ops \<Rightarrow> ('c \<Rightarrow> (exn + bool) \<times> 'c) \<Rightarrow> nat \<Rightarrow> int \<Rightarrow> 'c manager
     \<Rightarrow> (exn + bool) \<times> 'c manager" where
  "write_attempts ops func 0 attempt w = (Inr False, w)"
| "write_attempts ops func (Suc k) attempt w =
     (case write_attempt ops func attempt w of
        (Return result, w') \<Rightarrow> (Inr result, w')
      | (Raise e, w') \<Rightarrow> (Inl e, w')
      | (Continue, w') \<Rightarrow> write_attempts ops func k (attempt + 1) w')"

definition write_with_retry ::
  "'c client_ops \<Rightarrow> ('c \<Rightarrow> (exn + bool) \<times> 'c) \<Rightarrow> 'c manager \<Rightarrow> (exn + bool) \<times> 'c manager" where
  "write_with_retry ops func w = write_attempts ops func (nat (retry_count w)) 0 w"

subsection \<open>A scripted client\<close>

text \<open>
  A client whose \<open>connect\<close> follows a script, one entry per call: it returns True,
  returns False, or raises. Once the script is used up \<open>connect\<close> returns False. The
  client counts the calls of \<open>connect\<close> and of \<open>write_coil\<close>; \<open>write_coil\<close> returns the
  fixed answer \<open>sc_write_answer\<close>.
\<close>

datatype connect_outcome = Accept | Reject | Fail exn

record scripted =
  sc_up :: bool
  sc_script :: "connect_outcome list"
  sc_connects :: nat
  sc_writes :: nat
  sc_write_answer :: bool

definition scripted_connect :: "scripted \<Rightarrow> (exn + bool) \<times> scripted" where
  "scripted_connect c =
     (case sc_script c of
        [] \<Rightarrow> (Inr False, c\<lparr>sc_connects := sc_connects c + 1\<rparr>)
      | Accept # rest \<Rightarrow>
          (Inr True, c\<lparr>sc_up := True, sc_script := rest, sc_connects := sc_connects c + 1\<rparr>)
      | Reject # rest \<Rightarrow> (Inr False, c\<lparr>sc_script := rest, sc_connects := sc_connects c + 1\<rparr>)
      | Fail e # rest \<Rightarrow> (Inl e, c\<lparr>sc_script := rest, sc_connects := sc_connects c + 1\<rparr>))"

definition scripted_write_coil :: "int \<Rightarrow> bool \<Rightarrow> scripted \<Rightarrow> (exn + bool) \<times> scripted" where
  "scripted_write_coil address value c =
     (if sc_up c then (Inr (sc_write_answer c), c\<lparr>sc_writes := sc_writes c + 1\<rparr>)
      else (Inl (ConnectionError ''not connected''), c\<lparr>sc_writes := sc_writes c + 1\<rparr>))"

definition scripted_ops :: "scripted client_ops" where
  "scripted_ops =
     \<lparr>op_is_connected = (\<lambda>c. Inr (sc_up c)),
      op_connect = scripted_connect,
      op_disconnect = (\<lambda>c. (None, c\<lparr>sc_up := False\<rparr>)),
      op_write_coil = scripted_write_coil\<rparr>"

definition scripted_client :: "bool \<Rightarrow> connect_outcome list \<Rightarrow> bool \<Rightarrow> scripted" where
  "scripted_client up script answer =
     \<lparr>sc_up = up, sc_script = script, sc_connects = 0, sc_writes = 0, sc_write_answer = answer\<rparr>"


text \<open>
  A client that is never connected: \<open>connect\<close> returns False every time. Its state is
  the number of calls of \<open>connect\<close>.
\<close>

definition refusing_ops :: "nat client_ops" where
  "refusing_ops =
     \<lparr>op_is_connected = (\<lambda>c. Inr False),
      op_connect = (\<lambda>c. (Inr False, Suc c)),
      op_disconnect = (\<lambda>c. (None, c)),
      op_write_coil = (\<lambda>address value c. (Inl (ConnectionError ''not connected''), c))\<rparr>"


section \<open>Simulated client (mock\_plc.py)\<close>

definition REGISTER_MOTOR_SPEED :: int where "REGISTER_MOTOR_SPEED = 100"
definition REGISTER_MOTOR_CURRENT :: int where "REGISTER_MOTOR_CURRENT = 101"
definition REGISTER_TEMPERATURE :: int where "REGISTER_TEMPERATURE = 102"
definition REGISTER_PRESSURE :: int where "REGISTER_PRESSURE = 103"
definition REGISTER_CONVEYOR_SPEED :: int where "REGISTER_CONVEYOR_SPEED = 104"
definition REGISTER_ERROR_CODE :: int where "REGISTER_ERROR_CODE = 105"

definition COIL_MOTOR_RUNNING :: int where "COIL_MOTOR_RUNNING = 0"
definition COIL_MOTOR_STOPPED :: int where "COIL_MOTOR_STOPPED = 1"
definition COIL_FAULT_ALARM :: int where "COIL_FAULT_ALARM = 2"
definition COIL_CONVEYOR_RUNNING :: int where "COIL_CONVEYOR_RUNNING = 3"
definition COIL_SENSOR_1 :: int where "COIL_SENSOR_1 = 4"
definition COIL_SENSOR_2 :: int where "COIL_SENSOR_2 = 5"
definition COIL_E_STOP :: int where "COIL_E_STOP = 6"

text \<open>The two dictionaries of \<open>MockPLC\<close> are maps from addresses.\<close>

record mock_plc =
  plc_connected :: bool
  registers :: "int \<rightharpoonup> int"
  coils :: "int \<rightharpoonup> bool"
  plc_scene_name :: string

text \<open>\<open>MockPLC()\<close>: the state after \<open>__init__\<close> with no \<open>initial_state\<close>.\<close>

definition mock_init :: mock_plc where
  "mock_init =
     \<lparr>plc_connected = False,
      registers = [REGISTER_MOTOR_SPEED \<mapsto> 0, REGISTER_MOTOR_CURRENT \<mapsto> 0,
                   REGISTER_TEMPERATURE \<mapsto> 250, REGISTER_PRESSURE \<mapsto> 100,
                   REGISTER_CONVEYOR_SPEED \<mapsto> 0, REGISTER_ERROR_CODE \<mapsto> 0],
      coils = [COIL_MOTOR_RUNNING \<mapsto> False, COIL_MOTOR_STOPPED \<mapsto> True,
               COIL_FAULT_ALARM \<mapsto> False, COIL_CONVEYOR_RUNNING \<mapsto> False,
               COIL_SENSOR_1 \<mapsto> False, COIL_SENSOR_2 \<mapsto> False, COIL_E_STOP \<mapsto> False],
      plc_scene_name = ''sorting_station''\<rparr>"

definition mock_connect :: "mock_plc \<Rightarrow> bool \<times> mock_plc" where
  "mock_connect s = (True, s\<lparr>plc_connected := True\<rparr>)"

definition mock_disconnect :: "mock_plc \<Rightarrow> mock_plc" where
  "mock_disconnect s = s\<lparr>plc_connected := False\<rparr>"

definition mock_is_connected :: "mock_plc \<Rightarrow> bool" where
  "mock_is_connected s = plc_connected s"

text \<open>\<open>_ensure_connected\<close>: the exception it raises, if any.\<close>

definition mock_ensure_connected :: "mock_plc \<Rightarrow> exn option" where
  "mock_ensure_connected s =
     (if \<not> plc_connected s then Some (ConnectionError ''MockPLC is not connected'') else None)"

text \<open>
  The values the random generator hands to one call of \<open>_simulate_behavior\<close>:
  \<open>noise\<close> is \<open>randint(-5, 5)\<close>, \<open>heat\<close> is \<open>randint(1, 3)\<close>, \<open>cool\<close> is \<open>randint(1, 5)\<close>,
  \<open>roll1\<close> and \<open>roll2\<close> say whether \<open>random() < 0.1\<close> held, \<open>pick1\<close> and \<open>pick2\<close> are the
  results of \<open>choice([True, False])\<close>. A value is read only on the path that draws it.
\<close>

record draws =
  noise :: int
  heat :: int
  cool :: int
  roll1 :: bool
  pick1 :: bool
  roll2 :: bool
  pick2 :: bool

text \<open>One possible set of random values, used in the examples.\<close>

definition sample_draws :: draws where
  "sample_draws =
     \<lparr>noise = 2, heat = 1, cool = 3, roll1 = False, pick1 = False, roll2 = False, pick2 = False\<rparr>"

text \<open>
  \<open>_simulate_behavior\<close>. Indexing a dictionary at a missing key raises \<open>KeyError\<close>.
  \<open>int(speed * 0.5)\<close> is taken on the branch \<open>speed > 0\<close>, where truncation is
  \<open>speed div 2\<close>. The result is the exception raised, if any, and the new state.
\<close>

definition simulate_behavior :: "draws \<Rightarrow> mock_plc \<Rightarrow> exn option \<times> mock_plc" where
  "simulate_behavior d s =
     (case coils s COIL_MOTOR_RUNNING of
        None \<Rightarrow> (Some (KeyError (str_int COIL_MOTOR_RUNNING)), s)
      | Some motor_running \<Rightarrow>
     (case registers s REGISTER_MOTOR_SPEED of
        None \<Rightarrow> (Some (KeyError (str_int REGISTER_MOTOR_SPEED)), s)
      | Some speed \<Rightarrow>
     (case registers s REGISTER_TEMPERATURE of
        None \<Rightarrow> (Some (KeyError (str_int REGISTER_TEMPERATURE)), s)
      | Some temp \<Rightarrow>
          let s1 =
            (if motor_running \<and> speed > 0 then
               let base_current = speed div 2;
                   s' = s\<lparr>registers :=
                          (registers s)(REGISTER_MOTOR_CURRENT \<mapsto> max 0 (base_current + noise d))\<rparr>
               in if temp < 800 then
                    s'\<lparr>registers :=
                         (registers s')(REGISTER_TEMPERATURE \<mapsto> min 800 (temp + heat d))\<rparr>
                  else s'
             else if temp > 250 then
               s\<lparr>registers := (registers s)(REGISTER_TEMPERATURE \<mapsto> max 250 (temp - cool d))\<rparr>
             else s)
          in (case coils s1 COIL_CONVEYOR_RUNNING of
                None \<Rightarrow> (Some (KeyError (str_int COIL_CONVEYOR_RUNNING)), s1)
              | Some conveyor_running \<Rightarrow>
                  if conveyor_running then
                    let s2 = (if roll1 d then s1\<lparr>coils := (coils s1)(COIL_SENSOR_1 \<mapsto> pick1 d)\<rparr>
                              else s1);
                        s3 = (if roll2 d then s2\<lparr>coils := (coils s2)(COIL_SENSOR_2 \<mapsto> pick2 d)\<rparr>
                              else s2)
                    in (None, s3)
                  else (None, s1)))))"

text \<open>\<open>for i in range(count)\<close> reads the addresses \<open>address + i\<close>, \<open>i\<close> from 0 to \<open>count - 1\<close>
  (\<open>cnt\<close> is the argument \<open>count\<close>).\<close>

definition mock_read_holding_registers ::
  "draws \<Rightarrow> int \<Rightarrow> int \<Rightarrow> mock_plc \<Rightarrow> (exn + int list) \<times> mock_plc" where
  "mock_read_holding_registers d address cnt s =
     (case mock_ensure_connected s of
        Some e \<Rightarrow> (Inl e, s)
      | None \<Rightarrow>
          (case simulate_behavior d s of
             (Some e, s') \<Rightarrow> (Inl e, s')
           | (None, s') \<Rightarrow>
               (Inr (map (\<lambda>i. case registers s' (address + i) of None \<Rightarrow> 0 | Some v \<Rightarrow> v)
                         [0..cnt - 1]), s')))"

definition mock_read_coils :: "int \<Rightarrow> int \<Rightarrow> mock_plc \<Rightarrow> (exn + bool list) \<times> mock_plc" where
  "mock_read_coils address cnt s =
     (case mock_ensure_connected s of
        Some e \<Rightarrow> (Inl e, s)
      | None \<Rightarrow>
          (Inr (map (\<lambda>i. case coils s (address + i) of None \<Rightarrow> False | Some v \<Rightarrow> v)
                    [0..cnt - 1]), s))"

definition mock_write_register :: "int \<Rightarrow> int \<Rightarrow> mock_plc \<Rightarrow> (exn + bool) \<times> mock_plc" where
  "mock_write_register address value s =
     (case mock_ensure_connected s of
        Some e \<Rightarrow> (Inl e, s)
      | None \<Rightarrow>
          let s1 = s\<lparr>registers := (registers s)(address \<mapsto> value)\<rparr>;
              s2 = (if address = REGISTER_MOTOR_SPEED
                    then s1\<lparr>coils := (coils s1)(COIL_MOTOR_STOPPED \<mapsto> (value = 0))\<rparr>
                    else s1)
          in (Inr True, s2))"

definition mock_write_coil :: "int \<Rightarrow> bool \<Rightarrow> mock_plc \<Rightarrow> (exn + bool) \<times> mock_plc" where
  "mock_write_coil address value s =
     (case mock_ensure_connected s of
        Some e \<Rightarrow> (Inl e, s)
      | None \<Rightarrow>
          let s1 = s\<lparr>coils := (coils s)(address \<mapsto> value)\<rparr>;
              s2 = (if address = COIL_MOTOR_RUNNING then
                      let s' = s1\<lparr>coils := (coils s1)(COIL_MOTOR_STOPPED \<mapsto> \<not> value)\<rparr>
                      in if \<not> value then
                           s'\<lparr>registers := (registers s')(REGISTER_MOTOR_SPEED \<mapsto> 0,
                                                         REGISTER_MOTOR_CURRENT \<mapsto> 0)\<rparr>
                         else s'
                    else if address = COIL_MOTOR_STOPPED then
                      s1\<lparr>coils := (coils s1)(COIL_MOTOR_RUNNING \<mapsto> \<not> value)\<rparr>
                    else s1)
          in (Inr True, s2))"

text \<open>
  \<open>FactoryState\<close>, with the fields \<open>read_state\<close> passes to its constructor. The
  timestamp is the reading of the clock, a parameter of \<open>read_state\<close>.
\<close>

record factory_state =
  motor_running :: bool
  motor_speed :: int
  motor_current :: real
  temperature :: real
  pressure :: int
  fault_active :: bool
  conveyor_speed :: int
  conveyor_running :: bool
  sensor_1_active :: bool
  sensor_2_active :: bool
  e_stop_active :: bool
  error_code :: int
  timestamp :: nat
  scene_name :: string

text \<open>
  \<open>read_state\<close> calls \<open>_simulate_behavior\<close> itself and then
  \<open>read_holding_registers\<close>, which calls it again: two sets of random values are used.
\<close>

definition mock_read_state ::
  "draws \<Rightarrow> draws \<Rightarrow> nat \<Rightarrow> mock_plc \<Rightarrow> (exn + factory_state) \<times> mock_plc" where
  "mock_read_state d1 d2 now s =
     (case mock_ensure_connected s of
        Some e \<Rightarrow> (Inl e, s)
      | None \<Rightarrow>
     (case simulate_behavior d1 s of
        (Some e, s1) \<Rightarrow> (Inl e, s1)
      | (None, s1) \<Rightarrow>
     (case mock_read_holding_registers d2 100 6 s1 of
        (Inl e, s2) \<Rightarrow> (Inl e, s2)
      | (Inr regs, s2) \<Rightarrow>
     (case mock_read_coils 0 7 s2 of
        (Inl e, s3) \<Rightarrow> (Inl e, s3)
      | (Inr cs, s3) \<Rightarrow>
          (Inr \<lparr>motor_running = cs ! 0,
                motor_speed = regs ! 0,
                motor_current = real_of_int (regs ! 1) / 10,
                temperature = real_of_int (regs ! 2) / 10,
                pressure = regs ! 3,
                fault_active = cs ! 2,
                conveyor_speed = regs ! 4,
                conveyor_running = cs ! 3,
                sensor_1_active = cs ! 4,
                sensor_2_active = cs ! 5,
                e_stop_active = cs ! 6,
                error_code = regs ! 5,
                timestamp = now,
                scene_name = plc_scene_name s3\<rparr>, s3)))))"

text \<open>\<open>start_motor\<close> and \<open>stop_motor\<close>.\<close>

definition mock_start_motor :: "int \<Rightarrow> mock_plc \<Rightarrow> (exn + bool) \<times> mock_plc" where
  "mock_start_motor speed s =
     (case mock_write_coil COIL_MOTOR_RUNNING True s of
        (Inl e, s1) \<Rightarrow> (Inl e, s1)
      | (Inr _, s1) \<Rightarrow>
          (case mock_write_register REGISTER_MOTOR_SPEED (min 100 (max 0 speed)) s1 of
             (Inl e, s2) \<Rightarrow> (Inl e, s2)
           | (Inr _, s2) \<Rightarrow> (Inr True, s2)))"

definition mock_stop_motor :: "mock_plc \<Rightarrow> (exn + bool) \<times> mock_plc" where
  "mock_stop_motor s =
     (case mock_write_coil COIL_MOTOR_RUNNING False s of
        (Inl e, s1) \<Rightarrow> (Inl e, s1)
      | (Inr _, s1) \<Rightarrow> (Inr True, s1))"

text \<open>
  A sequence of calls on the simulated client. A call that raises leaves the state
  it reached and the sequence goes on, as a caller that catches the exception would.
\<close>

datatype mock_call =
    Connect
  | Disconnect
  | WriteCoil int bool
  | WriteRegister int int
  | ReadHoldingRegisters draws int int
  | ReadCoils int int
  | ReadState draws draws nat

fun mock_step :: "mock_call \<Rightarrow> mock_plc \<Rightarrow> mock_plc" where
  "mock_step Connect s = snd (mock_connect s)"
| "mock_step Disconnect s = mock_disconnect s"
| "mock_step (WriteCoil a v) s = snd (mock_write_coil a v s)"
| "mock_step (WriteRegister a v) s = snd (mock_write_register a v s)"
| "mock_step (ReadHoldingRegisters d a n) s = snd (mock_read_holding_registers d a n s)"
| "mock_step (ReadCoils a n) s = snd (mock_read_coils a n s)"
| "mock_step (ReadState d1 d2 now) s = snd (mock_read_state d1 d2 now s)"

fun mock_run :: "mock_call list \<Rightarrow> mock_plc \<Rightarrow> mock_plc" where
  "mock_run [] s = s"
| "mock_run (c # cs) s = mock_run cs (mock_step c s)"


section \<open>Connection service and its route (plc\_connection.py, routes/plc.py)\<close>

text \<open>
  The fields of \<open>PLCConnectionService\<close>. The client is absent (\<open>None\<close>) until
  \<open>connect\<close> builds one; \<open>svc_last_seen\<close> is a reading of the clock.
\<close>

record 'c service =
  svc_client :: "'c option"
  svc_ip :: "string option"
  svc_port :: int
  svc_connected :: bool
  svc_last_seen :: "nat option"

definition COIL_NAMES :: "(int \<times> string) list" where
  "COIL_NAMES =
     [(0, ''motor_running''), (1, ''motor_stopped''), (2, ''fault_alarm''),
      (3, ''conveyor_running''), (4, ''sensor_1_active''), (5, ''sensor_2_active''),
      (6, ''e_stop_active''), (7, ''DI_00''), (8, ''DI_01''), (9, ''DI_02''),
      (10, ''DI_03''), (11, ''DI_04''), (12, ''DI_05''), (13, ''DI_06''),
      (14, ''DI_07''), (15, ''DO_00''), (16, ''DO_01''), (17, ''DO_03'')]"

text \<open>\<open>list(range(0, 7)) + [15, 16, 17]\<close>.\<close>

definition WRITABLE_COILS :: "int list" where
  "WRITABLE_COILS = [0..6] @ [15, 16, 17]"

definition svc_init :: "'c service" where
  "svc_init = \<lparr>svc_client = None, svc_ip = None, svc_port = 502, svc_connected = False,
               svc_last_seen = None\<rparr>"

text \<open>The property \<open>is_connected\<close>: an exception of the client counts as not connected.\<close>

definition svc_is_connected :: "'c client_ops \<Rightarrow> 'c service \<Rightarrow> bool" where
  "svc_is_connected ops s =
     (case svc_client s of
        None \<Rightarrow> False
      | Some c \<Rightarrow> (case op_is_connected ops c of Inl _ \<Rightarrow> False | Inr b \<Rightarrow> b))"

text \<open>
  \<open>connect\<close>. \<open>make_client\<close> stands for the constructor
  \<open>ModbusTCPClient(host=ip, port=port, timeout=3.0)\<close>, \<open>now\<close> for the reading of
  the clock. The client held before is disconnected and dropped, which leaves no
  trace in the service. The result is the pair of \<open>success\<close> and \<open>message\<close>.
\<close>

definition svc_connect ::
  "'c client_ops \<Rightarrow> (string \<Rightarrow> int \<Rightarrow> 'c) \<Rightarrow> nat \<Rightarrow> string \<Rightarrow> int \<Rightarrow> 'c service
     \<Rightarrow> (bool \<times> string) \<times> 'c service" where
  "svc_connect ops make_client now ip port s =
     (let s1 = s\<lparr>svc_ip := Some ip, svc_port := port\<rparr>
      in case op_connect ops (make_client ip port) of
           (Inl e, c') \<Rightarrow> ((False, exn_str e), s1\<lparr>svc_client := Some c', svc_connected := False\<rparr>)
         | (Inr ok, c') \<Rightarrow>
             if ok then
               ((True, ''Connected to '' @ ip @ '':'' @ str_int port),
                s1\<lparr>svc_client := Some c', svc_connected := True, svc_last_seen := Some now\<rparr>)
             else
               ((False, ''Failed to connect to '' @ ip @ '':'' @ str_int port),
                s1\<lparr>svc_client := Some c', svc_connected := False\<rparr>))"

text \<open>A service connected to a scripted client, used in the examples.\<close>

definition sample_service :: "scripted service" where
  "sample_service =
     snd (svc_connect scripted_ops (\<lambda>ip port. scripted_client False [Accept] True) 0
            ''192.168.1.100'' 502 svc_init)"

record write_coil_result =
  wr_success :: bool
  wr_address :: int
  wr_value :: bool
  wr_name :: string

definition coil_name :: "int \<Rightarrow> string" where
  "coil_name address =
     (case map_of COIL_NAMES address of None \<Rightarrow> ''coil_'' @ str_int address | Some n \<Rightarrow> n)"

text \<open>
  \<open>PLCConnectionService.write_coil\<close>; \<open>now\<close> is the reading of the clock. The last
  case cannot be reached: a service that is connected has a client.
\<close>

definition svc_write_coil ::
  "'c client_ops \<Rightarrow> nat \<Rightarrow> int \<Rightarrow> bool \<Rightarrow> 'c service \<Rightarrow> (exn + write_coil_result) \<times> 'c service" where
  "svc_write_coil ops now address value s =
     (if \<not> svc_is_connected ops s then (Inl (ConnectionError ''Not connected to PLC''), s)
      else if address \<notin> set WRITABLE_COILS then
        (Inl (ValueError (''Address '' @ str_int address @ '' is not writable. Writable: ''
                           @ str_int_list WRITABLE_COILS)), s)
      else
        (case svc_client s of
           Some c \<Rightarrow>
             (case op_write_coil ops address value c of
                (Inl e, c') \<Rightarrow> (Inl e, s\<lparr>svc_client := Some c'\<rparr>)
              | (Inr success, c') \<Rightarrow>
                  (Inr \<lparr>wr_success = success, wr_address = address, wr_value = value,
                        wr_name = coil_name address\<rparr>,
                   s\<lparr>svc_client := Some c', svc_last_seen := Some now\<rparr>))
         | None \<Rightarrow> (Inl (OtherError ''AttributeError''), s)))"

text \<open>An \<open>HTTPException\<close>: the status code and the detail.\<close>

datatype http_exception = HTTPException int string

text \<open>
  The route \<open>write_coil\<close> of routes/plc.py. The clauses are tried in the order
  \<open>ValueError\<close>, \<open>ConnectionError\<close>, \<open>IOError\<close>; any other exception leaves the route
  as it is (the framework answers 500).
\<close>

definition route_write_coil ::
  "'c client_ops \<Rightarrow> nat \<Rightarrow> int \<Rightarrow> bool \<Rightarrow> 'c service
     \<Rightarrow> (http_exception + exn + write_coil_result) \<times> 'c service" where
  "route_write_coil ops now address value s =
     (if \<not> svc_is_connected ops s then
        (Inl (HTTPException 503 ''Not connected to PLC. Use POST /api/plc/connect first.''), s)
      else
        (case svc_write_coil ops now address value s of
           (Inr result, s') \<Rightarrow> (Inr (Inr result), s')
         | (Inl (ValueError m), s') \<Rightarrow> (Inl (HTTPException 400 m), s')
         | (Inl (ConnectionError m), s') \<Rightarrow> (Inl (HTTPException 503 m), s')
         | (Inl (IOError m), s') \<Rightarrow> (Inl (HTTPException 500 (''Write failed: '' @ m)), s')
         | (Inl e, s') \<Rightarrow> (Inr (Inl e), s')))"


section \<open>Network scanner and its route (network\_scanner.py, routes/setup.py)\<close>

datatype status = Online | Timeout | ConnectionRefused | Error

record scan_result =
  sr_ip :: string
  sr_port :: int
  sr_status :: status
  sr_response_time_ms :: "real option"
  sr_error_message :: "string option"

text \<open>\<open>DeviceInfo\<close>; its \<open>status\<close> field can only be \<open>online\<close>.\<close>

record device_info =
  di_ip :: string
  di_port :: int
  di_status :: status
  di_response_time_ms :: real

record scanner =
  scanner_timeout :: real
  scanner_port :: int
  scanner_max_workers :: int

text \<open>
  The thread pool of \<open>scan_subnet\<close> is the boundary of the model: \<open>run_probes\<close> stands
  for submitting \<open>_probe_ip\<close> for every address and collecting the results as the
  probes complete, in whatever order that is, with the duration measured. It acts on
  the network, whose state is the type parameter \<open>'n\<close>, and may raise. \<open>round2\<close> is
  \<open>round(_, 2)\<close> on a float.
\<close>

record 'n scan_env =
  run_probes :: "scanner \<Rightarrow> string list \<Rightarrow> 'n \<Rightarrow> (exn + scan_result list \<times> real) \<times> 'n"
  round2 :: "real \<Rightarrow> real"

definition scan_subnet ::
  "'n scan_env \<Rightarrow> scanner \<Rightarrow> string \<Rightarrow> int \<Rightarrow> int \<Rightarrow> 'n \<Rightarrow> (exn + scan_result list \<times> real) \<times> 'n" where
  "scan_subnet env sc subnet start end n =
     (let ips = map (\<lambda>i. subnet @ ''.'' @ str_int i) [start..end]
      in run_probes env sc ips n)"

text \<open>The projection to \<open>DeviceInfo\<close>; \<open>r.response_time_ms or 0.0\<close>.\<close>

definition to_device :: "scan_result \<Rightarrow> device_info" where
  "to_device r =
     \<lparr>di_ip = sr_ip r, di_port = sr_port r, di_status = Online,
      di_response_time_ms = (case sr_response_time_ms r of None \<Rightarrow> 0 | Some t \<Rightarrow> t)\<rparr>"

text \<open>
  The part of \<open>get_online_devices\<close> after the scan: the comprehension, the sort
  (Python's \<open>list.sort\<close> is stable, as \<open>sort_key\<close> is) and the count.
\<close>

definition online_devices :: "scan_result list \<Rightarrow> device_info list" where
  "online_devices results =
     sort_key di_response_time_ms (map to_device (filter (\<lambda>r. sr_status r = Online) results))"

definition get_online_devices ::
  "'n scan_env \<Rightarrow> scanner \<Rightarrow> string \<Rightarrow> int \<Rightarrow> int \<Rightarrow> 'n
     \<Rightarrow> (exn + device_info list \<times> nat \<times> real) \<times> 'n" where
  "get_online_devices env sc subnet start end n =
     (case scan_subnet env sc subnet start end n of
        (Inl e, n') \<Rightarrow> (Inl e, n')
      | (Inr (results, duration), n') \<Rightarrow>
          (Inr (online_devices results, length results, duration), n'))"

record scan_request =
  req_subnet :: string
  req_start :: int
  req_end :: int
  req_timeout :: real

text \<open>\<open>ScanRequest()\<close>: the defaults of the request model (the timeout is 0.3).\<close>

definition default_scan_request :: scan_request where
  "default_scan_request =
     \<lparr>req_subnet = ''192.168.1'', req_start = 1, req_end = 254, req_timeout = 3 / 10\<rparr>"

record scan_response =
  resp_devices :: "device_info list"
  resp_count :: nat
  resp_online_count :: nat
  resp_scan_time_seconds :: real
  resp_subnet_scanned :: string

definition scanner_default_port :: int where
  "scanner_default_port = 502"

definition settings_scanner_max_workers :: int where
  "settings_scanner_max_workers = 50"

text \<open>The route \<open>scan_network\<close>.\<close>

definition scan_network ::
  "'n scan_env \<Rightarrow> scan_request option \<Rightarrow> 'n \<Rightarrow> (http_exception + scan_response) \<times> 'n" where
  "scan_network env request n =
     (let request = (case request of None \<Rightarrow> default_scan_request | Some r \<Rightarrow> r)
      in if req_start request > req_end request then
           (Inl (HTTPException 400
                  (''start ('' @ str_int (req_start request) @ '') must be <= end (''
                     @ str_int (req_end request) @ '')'')), n)
         else
           let sc = \<lparr>scanner_timeout = req_timeout request,
                     scanner_port = scanner_default_port,
                     scanner_max_workers = settings_scanner_max_workers\<rparr>
           in (case get_online_devices env sc (req_subnet request) (req_start request)
                       (req_end request) n of
                 (Inl e, n') \<Rightarrow>
                   (Inl (HTTPException 500 (''Network scan failed: '' @ exn_str e)), n')
               | (Inr (devices, cnt, duration), n') \<Rightarrow>
                   (Inr \<lparr>resp_devices = devices,
                         resp_count = cnt,
                         resp_online_count = length devices,
                         resp_scan_time_seconds = round2 env duration,
                         resp_subnet_scanned =
                           req_subnet request @ ''.'' @ str_int (req_start request) @ ''-''
                             @ str_int (req_end request)\<rparr>, n')))"

text \<open>
  A network that records every address handed to the pool, for use as a test
  fixture: the probe of an address listed in \<open>up\<close> is online with the latency given
  there, every other probe times out.
\<close>

definition fixture_probe :: "(string \<times> real) list \<Rightarrow> scanner \<Rightarrow> string \<Rightarrow> scan_result" where
  "fixture_probe up sc ip =
     (case map_of up ip of
        Some t \<Rightarrow> \<lparr>sr_ip = ip, sr_port = scanner_port sc, sr_status = Online,
                   sr_response_time_ms = Some t, sr_error_message = None\<rparr>
      | None \<Rightarrow> \<lparr>sr_ip = ip, sr_port = scanner_port sc, sr_status = Timeout,
                  sr_response_time_ms = None, sr_error_message = None\<rparr>)"

definition fixture_env :: "(string \<times> real) list \<Rightarrow> (string list) scan_env" where
  "fixture_env up =
     \<lparr>run_probes = (\<lambda>sc ips probed. (Inr (map (fixture_probe up sc) ips, 0), probed @ ips)),
      round2 = (\<lambda>x. x)\<rparr>"


section \<open>Backoff\<close>

lemma calculate_backoff_le_max: "calculate_backoff w \<le> MAX_BACKOFF_DELAY"
  by (simp add: calculate_backoff_def Let_def)

lemma pow2_min_mono:
  fixes m n :: nat
  assumes "m \<le> n"
  shows "(2::real) ^ min m 5 \<le> 2 ^ min n 5"
proof -
  have "min m 5 \<le> min n 5" using assms by simp
  then show ?thesis by (rule power_increasing) simp
qed

text \<open>
  C1. For every value \<open>n\<close> of the failure counter the backoff delay is
  \<open>min (retry_delay * 2 ^ min n 5) MAX_BACKOFF_DELAY\<close> with \<open>MAX_BACKOFF_DELAY = 30\<close>; it
  never exceeds 30; and, the base delay being a delay (not negative), it does not
  decrease when the counter grows.
\<close>

theorem C1_backoff:
  "calculate_backoff (w\<lparr>consecutive_failures := n\<rparr>)
     = min (retry_delay w * 2 ^ min n 5) MAX_BACKOFF_DELAY
   \<and> MAX_BACKOFF_DELAY = 30
   \<and> calculate_backoff (w\<lparr>consecutive_failures := n\<rparr>) \<le> 30
   \<and> (0 \<le> retry_delay w \<longrightarrow> n \<le> n' \<longrightarrow>
        calculate_backoff (w\<lparr>consecutive_failures := n\<rparr>)
          \<le> calculate_backoff (w\<lparr>consecutive_failures := n'\<rparr>))"
proof (intro conjI impI)
  show "calculate_backoff (w\<lparr>consecutive_failures := n\<rparr>)
          = min (retry_delay w * 2 ^ min n 5) MAX_BACKOFF_DELAY"
    by (simp add: calculate_backoff_def Let_def)
  show "MAX_BACKOFF_DELAY = 30"
    by (simp add: MAX_BACKOFF_DELAY_def)
  show "calculate_backoff (w\<lparr>consecutive_failures := n\<rparr>) \<le> 30"
    using calculate_backoff_le_max [of "w\<lparr>consecutive_failures := n\<rparr>"]
    by (simp add: MAX_BACKOFF_DELAY_def)
next
  assume nonneg: "0 \<le> retry_delay w" and le: "n \<le> n'"
  have "retry_delay w * 2 ^ min n 5 \<le> retry_delay w * 2 ^ min n' 5"
    using nonneg pow2_min_mono [OF le] by (rule mult_left_mono [rotated])
  then show "calculate_backoff (w\<lparr>consecutive_failures := n\<rparr>)
               \<le> calculate_backoff (w\<lparr>consecutive_failures := n'\<rparr>)"
    by (simp add: calculate_backoff_def Let_def min_le_iff_disj)
qed

theorem C1_backoff_witness:
  "calculate_backoff (mgr_init () 3 1 True\<lparr>consecutive_failures := 2\<rparr>) = 4
   \<and> calculate_backoff (mgr_init () 3 1 True\<lparr>consecutive_failures := 7\<rparr>) = 30
   \<and> calculate_backoff (mgr_init () 3 1 True\<lparr>consecutive_failures := 2\<rparr>)
        \<le> calculate_backoff (mgr_init () 3 1 True\<lparr>consecutive_failures := 7\<rparr>)"
  using C1_backoff [where w = "mgr_init () 3 1 True" and n = 2 and n' = 7]
  by (simp add: mgr_init_def MAX_BACKOFF_DELAY_def calculate_backoff_def)

section \<open>Simulated client: a disconnected instance\<close>

lemmas mock_addresses =
  REGISTER_MOTOR_SPEED_def REGISTER_MOTOR_CURRENT_def REGISTER_TEMPERATURE_def
  REGISTER_PRESSURE_def REGISTER_CONVEYOR_SPEED_def REGISTER_ERROR_CODE_def
  COIL_MOTOR_RUNNING_def COIL_MOTOR_STOPPED_def COIL_FAULT_ALARM_def
  COIL_CONVEYOR_RUNNING_def COIL_SENSOR_1_def COIL_SENSOR_2_def COIL_E_STOP_def

text \<open>
  C10. On a simulated client that is not connected, each of
  \<open>read_holding_registers\<close>, \<open>read_coils\<close>, \<open>write_register\<close>, \<open>write_coil\<close> and
  \<open>read_state\<close> raises \<open>ConnectionError\<close> and leaves the whole state, the register and
  coil stores included, as it was; \<open>connect\<close> returns True, marks the client connected
  and does not touch the stores.
\<close>

theorem C10_disconnected_mock:
  assumes "\<not> plc_connected s"
  shows "mock_read_holding_registers d a n s = (Inl (ConnectionError ''MockPLC is not connected''), s)
       \<and> mock_read_coils a n s = (Inl (ConnectionError ''MockPLC is not connected''), s)
       \<and> mock_write_register a v s = (Inl (ConnectionError ''MockPLC is not connected''), s)
       \<and> mock_write_coil a b s = (Inl (ConnectionError ''MockPLC is not connected''), s)
       \<and> mock_read_state d1 d2 now s = (Inl (ConnectionError ''MockPLC is not connected''), s)
       \<and> fst (mock_connect s) = True
       \<and> plc_connected (snd (mock_connect s))
       \<and> registers (snd (mock_connect s)) = registers s
       \<and> coils (snd (mock_connect s)) = coils s"
  using assms
  by (simp add: mock_read_holding_registers_def mock_read_coils_def mock_write_register_def
      mock_write_coil_def mock_read_state_def mock_ensure_connected_def mock_connect_def)

theorem C10_disconnected_mock_witness:
  "\<not> plc_connected mock_init
   \<and> mock_read_holding_registers sample_draws 100 6 mock_init
       = (Inl (ConnectionError ''MockPLC is not connected''), mock_init)
   \<and> mock_read_coils 100 6 mock_init = (Inl (ConnectionError ''MockPLC is not connected''), mock_init)
   \<and> mock_write_register 100 50 mock_init
       = (Inl (ConnectionError ''MockPLC is not connected''), mock_init)
   \<and> mock_write_coil 100 True mock_init
       = (Inl (ConnectionError ''MockPLC is not connected''), mock_init)
   \<and> mock_read_state sample_draws sample_draws 0 mock_init
       = (Inl (ConnectionError ''MockPLC is not connected''), mock_init)
   \<and> fst (mock_connect mock_init) = True"
  using C10_disconnected_mock [where s = mock_init and d = sample_draws and a = 100 and n = 6
      and v = 50 and b = True and ?d1.0 = sample_draws and ?d2.0 = sample_draws and now = 0]
  by (simp add: mock_init_def)


section \<open>Connection service: a coil that is not writable\<close>

lemma writable_repr: "str_int_list WRITABLE_COILS = ''[0, 1, 2, 3, 4, 5, 6, 15, 16, 17]''"
  by code_simp

lemma writable_set: "set WRITABLE_COILS = {0..6} \<union> {15, 16, 17}"
  by (simp add: WRITABLE_COILS_def)

text \<open>
  C5. On a connected service, \<open>write_coil\<close> at an address outside 0-6 and 15-17
  raises \<open>ValueError\<close> with the message \<open>Address <address> is not writable. Writable:
  [0, 1, 2, 3, 4, 5, 6, 15, 16, 17]\<close>, and the service, its client included, is left
  as it was: the client's \<open>write_coil\<close> is not called, whatever it is. The route turns
  the exception into a 400 response with the same text.
\<close>

theorem C5_write_coil_not_writable:
  assumes "svc_is_connected ops s"
    and "address \<notin> {0..6} \<union> {15, 16, 17}"
  shows "svc_write_coil ops now address value s =
           (Inl (ValueError (''Address '' @ str_int address
                   @ '' is not writable. Writable: [0, 1, 2, 3, 4, 5, 6, 15, 16, 17]'')), s)
       \<and> route_write_coil ops now address value s =
           (Inl (HTTPException 400 (''Address '' @ str_int address
                   @ '' is not writable. Writable: [0, 1, 2, 3, 4, 5, 6, 15, 16, 17]'')), s)"
  using assms
  by (simp add: svc_write_coil_def route_write_coil_def writable_set writable_repr)


lemma sample_service_eq:
  "sample_service =
     \<lparr>svc_client = Some \<lparr>sc_up = True, sc_script = [], sc_connects = 1, sc_writes = 0,
                          sc_write_answer = True\<rparr>,
      svc_ip = Some ''192.168.1.100'', svc_port = 502, svc_connected = True,
      svc_last_seen = Some 0\<rparr>"
  by (simp add: sample_service_def svc_connect_def scripted_ops_def scripted_connect_def
      scripted_client_def svc_init_def)

theorem C5_write_coil_not_writable_witness:
  "svc_is_connected scripted_ops sample_service
   \<and> (8::int) \<notin> {0..6} \<union> {15, 16, 17}
   \<and> svc_write_coil scripted_ops 1 8 True sample_service
       = (Inl (ValueError ''Address 8 is not writable. Writable: [0, 1, 2, 3, 4, 5, 6, 15, 16, 17]''),
          sample_service)
   \<and> route_write_coil scripted_ops 1 8 True sample_service
       = (Inl (HTTPException 400
                 ''Address 8 is not writable. Writable: [0, 1, 2, 3, 4, 5, 6, 15, 16, 17]''),
          sample_service)
   \<and> sc_writes (the (svc_client sample_service)) = 0"
proof -
  have s8: "str_int 8 = ''8''" by code_simp
  have c: "svc_is_connected scripted_ops sample_service"
    by (simp add: sample_service_eq svc_is_connected_def scripted_ops_def)
  have a: "(8::int) \<notin> {0..6} \<union> {15, 16, 17}" by simp
  show ?thesis
    using C5_write_coil_not_writable [OF c a, of 1 True] c
    by (simp add: s8 sample_service_eq)
qed


section \<open>Network scanner\<close>

lemma sorted_online_devices: "sorted (map di_response_time_ms (online_devices results))"
  by (simp add: online_devices_def)

lemma mset_online_devices:
  "mset (online_devices results) =
     image_mset to_device (filter_mset (\<lambda>r. sr_status r = Online) (mset results))"
  by (simp add: online_devices_def)

text \<open>
  C6. When the scan yields the list \<open>results\<close> of probe results,
  \<open>get_online_devices\<close> returns the devices of exactly the results whose status is
  online (as a multiset: each online result once, projected to \<open>DeviceInfo\<close>), in
  ascending order of response time, and the number of results as the count.
\<close>

theorem C6_get_online_devices:
  assumes "scan_subnet env sc subnet start end n = (Inr (results, duration), n')"
  shows "get_online_devices env sc subnet start end n =
           (Inr (online_devices results, length results, duration), n')
       \<and> sorted (map di_response_time_ms (online_devices results))
       \<and> mset (online_devices results) =
           image_mset to_device (filter_mset (\<lambda>r. sr_status r = Online) (mset results))"
  using assms
  by (simp add: get_online_devices_def sorted_online_devices mset_online_devices)

lemma fixture_scan:
  "scan_subnet (fixture_env [(''10.0.0.3'', 7), (''10.0.0.1'', 9), (''10.0.0.4'', 2)])
      \<lparr>scanner_timeout = 1 / 10, scanner_port = 502, scanner_max_workers = 50\<rparr> ''10.0.0'' 1 5 []
   = (Inr (map (fixture_probe [(''10.0.0.3'', 7), (''10.0.0.1'', 9), (''10.0.0.4'', 2)]
                 \<lparr>scanner_timeout = 1 / 10, scanner_port = 502, scanner_max_workers = 50\<rparr>)
             [''10.0.0.1'', ''10.0.0.2'', ''10.0.0.3'', ''10.0.0.4'', ''10.0.0.5''], 0),
      [''10.0.0.1'', ''10.0.0.2'', ''10.0.0.3'', ''10.0.0.4'', ''10.0.0.5''])"
proof -
  have s: "str_int 1 = ''1''" "str_int 2 = ''2''" "str_int 3 = ''3''" "str_int 4 = ''4''"
    "str_int 5 = ''5''"
    by code_simp+
  have u: "[1..5::int] = [1, 2, 3, 4, 5]" by code_simp
  show ?thesis
    by (simp add: scan_subnet_def fixture_env_def u s)
qed

theorem C6_get_online_devices_witness:
  "get_online_devices (fixture_env [(''10.0.0.3'', 7), (''10.0.0.1'', 9), (''10.0.0.4'', 2)])
      \<lparr>scanner_timeout = 1 / 10, scanner_port = 502, scanner_max_workers = 50\<rparr> ''10.0.0'' 1 5 []
   = (Inr ([\<lparr>di_ip = ''10.0.0.4'', di_port = 502, di_status = Online, di_response_time_ms = 2\<rparr>,
            \<lparr>di_ip = ''10.0.0.3'', di_port = 502, di_status = Online, di_response_time_ms = 7\<rparr>,
            \<lparr>di_ip = ''10.0.0.1'', di_port = 502, di_status = Online, di_response_time_ms = 9\<rparr>],
           5, 0),
      [''10.0.0.1'', ''10.0.0.2'', ''10.0.0.3'', ''10.0.0.4'', ''10.0.0.5''])"
  using C6_get_online_devices [OF fixture_scan]
  by (simp add: online_devices_def fixture_probe_def to_device_def)

text \<open>
  C9. A scan request whose \<open>start\<close> is greater than its \<open>end\<close> is answered with
  status 400 and the network is left as it was: the route returns before it builds a
  scanner, so nothing is probed, whatever the pool would do.
\<close>

theorem C9_scan_rejects:
  assumes "req_start r > req_end r"
  shows "scan_network env (Some r) n =
           (Inl (HTTPException 400 (''start ('' @ str_int (req_start r) @ '') must be <= end (''
                   @ str_int (req_end r) @ '')'')), n)"
  using assms by (simp add: scan_network_def)

theorem C9_scan_rejects_witness:
  "scan_network (fixture_env [(''10.0.0.3'', 5)])
     (Some \<lparr>req_subnet = ''10.0.0'', req_start = 5, req_end = 1, req_timeout = 1 / 10\<rparr>) []
   = (Inl (HTTPException 400 ''start (5) must be <= end (1)''), [])"
proof -
  have s5: "str_int 5 = ''5''" and s1: "str_int 1 = ''1''" by code_simp+
  show ?thesis
    using C9_scan_rejects [where r = "\<lparr>req_subnet = ''10.0.0'', req_start = 5, req_end = 1,
          req_timeout = 1 / 10\<rparr>"
        and env = "fixture_env [(''10.0.0.3'', 5)]" and n = "[]"]
    by (simp add: s5 s1)
qed

section \<open>Connection manager: the failure counter in \<open>ensure_connected\<close>\<close>

lemmas scripted_eval =
  ensure_connected_def mgr_init_def scripted_client_def scripted_ops_def
  scripted_connect_def scripted_write_coil_def mgr_sleep_def calculate_backoff_def
  MAX_BACKOFF_DELAY_def read_with_retry_def read_attempt_def write_with_retry_def
  write_attempt_def except_clauses_def Let_def eval_nat_numeral

lemma calculate_backoff_nonneg: "0 \<le> retry_delay w \<Longrightarrow> 0 \<le> calculate_backoff w"
  by (simp add: calculate_backoff_def Let_def MAX_BACKOFF_DELAY_def)

lemma mgr_sleep_counter:
  "mgr_sleep d w = (r, w') \<Longrightarrow> consecutive_failures w' = consecutive_failures w"
  by (auto simp: mgr_sleep_def split: if_splits)

text \<open>
  The loop does not change the counter while it runs: it is reset by a connect that
  succeeds, and incremented once by the code after the loop.
\<close>

lemma connect_attempts_counter:
  "connect_attempts ops k attempt w = (r, w') \<Longrightarrow>
     (r = Inr True \<longrightarrow> consecutive_failures w' = 0)
   \<and> (r = Inr False \<longrightarrow> consecutive_failures w' = consecutive_failures w + 1)
   \<and> (\<forall>e. r = Inl e \<longrightarrow> consecutive_failures w' = consecutive_failures w)"
proof (induction k arbitrary: attempt w)
  case 0
  then show ?case by auto
next
  case (Suc k)
  obtain r0 c' where oc: "op_connect ops (client w) = (r0, c')"
    by (cases "op_connect ops (client w)")
  show ?case
  proof (cases "r0 = Inr True")
    case True
    with Suc.prems oc show ?thesis by auto
  next
    case False
    define w1 where "w1 = (case r0 of Inl e \<Rightarrow> w\<lparr>client := c', last_error := Some e\<rparr>
                            | Inr _ \<Rightarrow> w\<lparr>client := c'\<rparr>)"
    have cf1: "consecutive_failures w1 = consecutive_failures w"
      by (simp add: w1_def split: sum.splits)
    show ?thesis
    proof (cases "attempt < retry_count w1 - 1")
      case sl: True
      obtain x w2 where ms: "mgr_sleep (calculate_backoff w1) w1 = (x, w2)"
        by (cases "mgr_sleep (calculate_backoff w1) w1")
      have cf2: "consecutive_failures w2 = consecutive_failures w"
        using mgr_sleep_counter [OF ms] cf1 by simp
      show ?thesis
      proof (cases x)
        case None
        with Suc.prems oc False sl ms
        have "connect_attempts ops k (attempt + 1) w2 = (r, w')"
          by (simp add: w1_def [symmetric] Let_def)
        from Suc.IH [OF this] cf2 show ?thesis by simp
      next
        case (Some e)
        with Suc.prems oc False sl ms have "r = Inl e" "w' = w2"
          by (simp_all add: w1_def [symmetric] Let_def)
        with cf2 show ?thesis by simp
      qed
    next
      case nsl: False
      with Suc.prems oc False
      have "connect_attempts ops k (attempt + 1) w1 = (r, w')"
        by (simp add: w1_def [symmetric] Let_def)
      from Suc.IH [OF this] cf1 show ?thesis by simp
    qed
  qed
qed

text \<open>
  When no call of \<open>connect\<close> succeeds, the loop calls it once per iteration and
  the counter ends one higher.
\<close>

lemma connect_attempts_all_fail:
  assumes fail: "\<And>c. fst (op_connect ops c) \<noteq> Inr True"
  shows "0 \<le> retry_delay w \<Longrightarrow>
         (\<exists>w'. connect_attempts ops k attempt w = (Inr False, w')
             \<and> client w' = ((\<lambda>c. snd (op_connect ops c)) ^^ k) (client w)
             \<and> consecutive_failures w' = consecutive_failures w + 1)"
proof (induction k arbitrary: attempt w)
  case 0
  then show ?case by simp
next
  case (Suc k)
  obtain r0 c' where oc: "op_connect ops (client w) = (r0, c')"
    by (cases "op_connect ops (client w)")
  have r0: "r0 \<noteq> Inr True" using fail [of "client w"] oc by simp
  define w1 where "w1 = (case r0 of Inl e \<Rightarrow> w\<lparr>client := c', last_error := Some e\<rparr>
                          | Inr _ \<Rightarrow> w\<lparr>client := c'\<rparr>)"
  have w1: "client w1 = c'" "consecutive_failures w1 = consecutive_failures w"
    "retry_delay w1 = retry_delay w"
    by (simp_all add: w1_def split: sum.splits)
  define w2 where "w2 = (if attempt < retry_count w1 - 1
                         then w1\<lparr>sleeps := sleeps w1 @ [calculate_backoff w1]\<rparr> else w1)"
  have w2: "client w2 = c'" "consecutive_failures w2 = consecutive_failures w"
    "0 \<le> retry_delay w2"
    using w1 Suc.prems by (simp_all add: w2_def)
  have nonneg: "\<not> calculate_backoff w1 < 0"
    using calculate_backoff_nonneg [of w1] w1 Suc.prems by simp
  have step: "connect_attempts ops (Suc k) attempt w = connect_attempts ops k (attempt + 1) w2"
    using oc r0 nonneg
    by (simp add: w1_def [symmetric] Let_def mgr_sleep_def w2_def)
  from Suc.IH [OF w2(3), of "attempt + 1"] obtain w' where
    r: "connect_attempts ops k (attempt + 1) w2 = (Inr False, w')"
    and cl: "client w' = ((\<lambda>c. snd (op_connect ops c)) ^^ k) (client w2)"
    and cf: "consecutive_failures w' = consecutive_failures w2 + 1"
    by blast
  have "((\<lambda>c. snd (op_connect ops c)) ^^ Suc k) (client w)
          = ((\<lambda>c. snd (op_connect ops c)) ^^ k) (snd (op_connect ops (client w)))"
    by (simp only: funpow_Suc_right [of k] o_apply)
  with step r cl cf w2 oc show ?case by simp
qed

lemma ensure_connected_three_failures:
  "ensure_connected scripted_ops
     (mgr_init (scripted_client False [Reject, Fail (ConnectionError ''refused''), Reject] True)
        3 1 True)
   = (Inr False,
      \<lparr>client = \<lparr>sc_up = False, sc_script = [], sc_connects = 3, sc_writes = 0,
                  sc_write_answer = True\<rparr>,
       retry_count = 3, retry_delay = 1, auto_reconnect = True, mgr_connected = False,
       consecutive_failures = 1, last_error = Some (ConnectionError ''refused''),
       sleeps = [1, 1]\<rparr>)"
  by (simp add: scripted_eval)

lemma ensure_connected_second_succeeds:
  "ensure_connected scripted_ops
     ((mgr_init (scripted_client False [Reject, Accept] True) 3 1 True)
        \<lparr>consecutive_failures := 4\<rparr>)
   = (Inr True,
      \<lparr>client = \<lparr>sc_up = True, sc_script = [], sc_connects = 2, sc_writes = 0,
                  sc_write_answer = True\<rparr>,
       retry_count = 3, retry_delay = 1, auto_reconnect = True, mgr_connected = True,
       consecutive_failures = 0, last_error = None, sleeps = [16]\<rparr>)"
  by (simp add: scripted_eval)

text \<open>
  C3, as stated, fails. With \<open>retry_count = 3\<close> and a client whose \<open>connect\<close> returns
  False, raises, and returns False again, \<open>ensure_connected\<close> makes three connect
  attempts, all failed, and the counter goes from 0 to 1, not to 3; the two sleeps
  between the attempts are both of the delay for a counter of 0.
\<close>

theorem C3_counterexample:
  "ensure_connected scripted_ops
     (mgr_init (scripted_client False [Reject, Fail (ConnectionError ''refused''), Reject] True)
        3 1 True)
   = (Inr False,
      \<lparr>client = \<lparr>sc_up = False, sc_script = [], sc_connects = 3, sc_writes = 0,
                  sc_write_answer = True\<rparr>,
       retry_count = 3, retry_delay = 1, auto_reconnect = True, mgr_connected = False,
       consecutive_failures = 1, last_error = Some (ConnectionError ''refused''),
       sleeps = [1, 1]\<rparr>)
   \<and> consecutive_failures
        (mgr_init (scripted_client False [Reject, Fail (ConnectionError ''refused''), Reject] True)
           3 1 True) + 3 \<noteq> 1"
  using ensure_connected_three_failures by (simp add: mgr_init_def)

text \<open>
  C3, amended. In \<open>ensure_connected\<close> with \<open>auto_reconnect\<close> on and a client that is
  not connected, the counter is not incremented once per failed connect attempt: when
  the call returns False, every attempt having failed, the counter is exactly one
  more than before the call, whatever the number of attempts; when a connect succeeds
  the counter is 0; when the call is left by an exception the counter is unchanged.
  In particular, when no \<open>connect\<close> of the client ever succeeds and the base delay is
  not negative, the call makes \<open>retry_count\<close> connect attempts, returns False and leaves
  the counter one higher.
\<close>

theorem C3_failure_counter:
  assumes "op_is_connected ops (client w) = Inr False"
    and "auto_reconnect w"
    and "ensure_connected ops w = (r, w')"
  shows "(r = Inr True \<longrightarrow> consecutive_failures w' = 0)
       \<and> (r = Inr False \<longrightarrow> consecutive_failures w' = consecutive_failures w + 1)
       \<and> (\<forall>e. r = Inl e \<longrightarrow> consecutive_failures w' = consecutive_failures w)
       \<and> ((\<forall>c. fst (op_connect ops c) \<noteq> Inr True) \<and> 0 \<le> retry_delay w \<longrightarrow>
            r = Inr False
          \<and> client w' = ((\<lambda>c. snd (op_connect ops c)) ^^ nat (retry_count w)) (client w)
          \<and> consecutive_failures w' = consecutive_failures w + 1)"
proof -
  have a: "connect_attempts ops (nat (retry_count w)) 0 w = (r, w')"
    using assms by (simp add: ensure_connected_def)
  have "r = Inr False
          \<and> client w' = ((\<lambda>c. snd (op_connect ops c)) ^^ nat (retry_count w)) (client w)
          \<and> consecutive_failures w' = consecutive_failures w + 1"
    if "\<forall>c. fst (op_connect ops c) \<noteq> Inr True" and "0 \<le> retry_delay w"
    using connect_attempts_all_fail [of ops w "nat (retry_count w)" 0] that a by auto
  then show ?thesis
    using connect_attempts_counter [OF a] by blast
qed

lemma ensure_connected_refusing:
  "ensure_connected refusing_ops (mgr_init 0 3 1 True)
   = (Inr False,
      \<lparr>client = 3, retry_count = 3, retry_delay = 1, auto_reconnect = True,
       mgr_connected = False, consecutive_failures = 1, last_error = None, sleeps = [1, 1]\<rparr>)"
  by (simp add: ensure_connected_def mgr_init_def refusing_ops_def mgr_sleep_def
      calculate_backoff_def MAX_BACKOFF_DELAY_def Let_def eval_nat_numeral)

theorem C3_failure_counter_witness:
  "consecutive_failures (snd (ensure_connected scripted_ops
     (mgr_init (scripted_client False [Reject, Fail (ConnectionError ''refused''), Reject] True)
        3 1 True))) = 0 + 1
   \<and> sc_connects (client (snd (ensure_connected scripted_ops
     (mgr_init (scripted_client False [Reject, Fail (ConnectionError ''refused''), Reject] True)
        3 1 True)))) = 3
   \<and> consecutive_failures (snd (ensure_connected scripted_ops
     ((mgr_init (scripted_client False [Reject, Accept] True) 3 1 True)
        \<lparr>consecutive_failures := 4\<rparr>))) = 0
   \<and> (\<forall>c. fst (op_connect refusing_ops c) \<noteq> Inr True)
   \<and> client (snd (ensure_connected refusing_ops (mgr_init 0 3 1 True))) = 3
   \<and> consecutive_failures (snd (ensure_connected refusing_ops (mgr_init 0 3 1 True))) = 0 + 1"
proof -
  let ?w = "mgr_init (scripted_client False [Reject, Fail (ConnectionError ''refused''), Reject] True)
              3 1 True"
  let ?v = "(mgr_init (scripted_client False [Reject, Accept] True) 3 1 True)
              \<lparr>consecutive_failures := 4\<rparr>"
  let ?u = "mgr_init (0::nat) 3 1 True"
  have a: "op_is_connected scripted_ops (client ?w) = Inr False" "auto_reconnect ?w"
    by (simp_all add: scripted_ops_def mgr_init_def scripted_client_def)
  have b: "op_is_connected scripted_ops (client ?v) = Inr False" "auto_reconnect ?v"
    by (simp_all add: scripted_ops_def mgr_init_def scripted_client_def)
  have c: "op_is_connected refusing_ops (client ?u) = Inr False" "auto_reconnect ?u"
    by (simp_all add: refusing_ops_def mgr_init_def)
  have d: "\<forall>c. fst (op_connect refusing_ops c) \<noteq> Inr True"
    by (simp add: refusing_ops_def)
  from C3_failure_counter [OF a ensure_connected_three_failures]
    C3_failure_counter [OF b ensure_connected_second_succeeds]
    C3_failure_counter [OF c ensure_connected_refusing] d
  show ?thesis
    by (simp add: ensure_connected_three_failures ensure_connected_second_succeeds
        ensure_connected_refusing)
qed


section \<open>Connection manager: \<open>read_with_retry\<close> when the connection cannot be made\<close>

lemma ensure_connected_two_rejected:
  "ensure_connected scripted_ops
     (mgr_init (scripted_client False [Reject, Reject, Accept] True) 2 1 True)
   = (Inr False,
      \<lparr>client = \<lparr>sc_up = False, sc_script = [Accept], sc_connects = 2, sc_writes = 0,
                  sc_write_answer = True\<rparr>,
       retry_count = 2, retry_delay = 1, auto_reconnect = True, mgr_connected = False,
       consecutive_failures = 1, last_error = None, sleeps = [1]\<rparr>)"
  by (simp add: scripted_eval)

lemma ensure_connected_one_rejected:
  "ensure_connected scripted_ops (mgr_init (scripted_client False [Reject] True) 1 1 True)
   = (Inr False,
      \<lparr>client = \<lparr>sc_up = False, sc_script = [], sc_connects = 1, sc_writes = 0,
                  sc_write_answer = True\<rparr>,
       retry_count = 1, retry_delay = 1, auto_reconnect = True, mgr_connected = False,
       consecutive_failures = 1, last_error = None, sleeps = []\<rparr>)"
  by (simp add: scripted_eval)

text \<open>
  C4, as stated, fails. With \<open>retry_count = 2\<close> and a client whose \<open>connect\<close> returns
  False twice and then True, the first \<open>ensure_connected\<close> of \<open>read_with_retry\<close>
  returns False; the \<open>ConnectionError\<close> raised for it is caught inside the call, which
  sleeps, tries again, connects and returns the closure's value 42 to the caller.
\<close>

theorem C4_counterexample:
  "fst (ensure_connected scripted_ops
     (mgr_init (scripted_client False [Reject, Reject, Accept] True) 2 1 True)) = Inr False
   \<and> read_with_retry scripted_ops (\<lambda>c. (Inr (42::int), c))
      (mgr_init (scripted_client False [Reject, Reject, Accept] True) 2 1 True)
   = (Inr 42,
      \<lparr>client = \<lparr>sc_up = True, sc_script = [], sc_connects = 3, sc_writes = 0,
                  sc_write_answer = True\<rparr>,
       retry_count = 2, retry_delay = 1, auto_reconnect = True, mgr_connected = True,
       consecutive_failures = 0, last_error = None, sleeps = [1, 4]\<rparr>)"
  by (simp add: scripted_eval)

text \<open>
  C4, amended. When \<open>ensure_connected\<close> returns False in an iteration of
  \<open>read_with_retry\<close>, the \<open>ConnectionError\<close> with the text \<open>Unable to connect to PLC\<close> is
  caught by the call's own handler: the manager is marked disconnected, the counter
  is incremented and the last error is set to \<open>Connection lost\<close>. If the iteration is
  not the last one, the call sleeps for the backoff delay and goes on with the next
  iteration; only in the last iteration is the \<open>ConnectionError\<close> raised to the caller.
\<close>

theorem C4_connect_failure_retried:
  assumes "ensure_connected ops w = (Inr False, w1)"
    and "0 \<le> retry_delay w1"
  shows "read_attempts ops func (Suc k) attempt w =
           (let w2 = w1\<lparr>mgr_connected := False,
                        consecutive_failures := consecutive_failures w1 + 1,
                        last_error := Some (ConnectionError ''Connection lost'')\<rparr>
            in if attempt < retry_count w1 - 1
               then read_attempts ops func k (attempt + 1)
                      (w2\<lparr>sleeps := sleeps w2 @ [calculate_backoff w2]\<rparr>)
               else (Inl (ConnectionError ''Unable to connect to PLC''), w2))"
proof -
  have "0 \<le> calculate_backoff (w1\<lparr>mgr_connected := False,
                        consecutive_failures := consecutive_failures w1 + 1,
                        last_error := Some (ConnectionError ''Connection lost'')\<rparr>)"
    using assms(2) by (intro calculate_backoff_nonneg) simp
  then show ?thesis
    using assms(1)
    by (simp add: read_attempt_def except_clauses_def mgr_sleep_def Let_def not_less [symmetric])
qed

theorem C4_connect_failure_retried_witness:
  "read_with_retry scripted_ops (\<lambda>c. (Inr (42::int), c))
      (mgr_init (scripted_client False [Reject] True) 1 1 True)
   = (Inl (ConnectionError ''Unable to connect to PLC''),
      \<lparr>client = \<lparr>sc_up = False, sc_script = [], sc_connects = 1, sc_writes = 0,
                  sc_write_answer = True\<rparr>,
       retry_count = 1, retry_delay = 1, auto_reconnect = True, mgr_connected = False,
       consecutive_failures = 2, last_error = Some (ConnectionError ''Connection lost''),
       sleeps = []\<rparr>)
   \<and> read_with_retry scripted_ops (\<lambda>c. (Inr (42::int), c))
      (mgr_init (scripted_client False [Reject, Reject, Accept] True) 2 1 True)
   = read_attempts scripted_ops (\<lambda>c. (Inr (42::int), c)) 1 1
      \<lparr>client = \<lparr>sc_up = False, sc_script = [Accept], sc_connects = 2, sc_writes = 0,
                  sc_write_answer = True\<rparr>,
       retry_count = 2, retry_delay = 1, auto_reconnect = True, mgr_connected = False,
       consecutive_failures = 2, last_error = Some (ConnectionError ''Connection lost''),
       sleeps = [1, 4]\<rparr>"
  using C4_connect_failure_retried [OF ensure_connected_one_rejected, of "\<lambda>c. (Inr (42::int), c)" 0 0]
    C4_connect_failure_retried [OF ensure_connected_two_rejected, of "\<lambda>c. (Inr (42::int), c)" 1 0]
  by (simp add: read_with_retry_def mgr_init_def calculate_backoff_def MAX_BACKOFF_DELAY_def
      eval_nat_numeral)


section \<open>Connection manager: a write closure that returns False\<close>

text \<open>One iteration whose closure returns False on a client that reports connected.\<close>

lemma write_attempt_false:
  assumes conn: "op_is_connected ops (client w) = Inr True"
    and ret: "fst (func (client w)) = Inr False"
    and delay: "0 \<le> retry_delay w"
  shows "write_attempt ops func attempt w =
           (let w1 = w\<lparr>mgr_connected := True, client := snd (func (client w)),
                        last_error := Some (IOError ''Write operation returned False''),
                        consecutive_failures := consecutive_failures w + 1\<rparr>
            in if attempt < retry_count w - 1
               then (Continue, w1\<lparr>sleeps := sleeps w @ [calculate_backoff w1]\<rparr>)
               else (Raise (IOError ''Write operation returned False''), w1))"
proof -
  obtain c' where f: "func (client w) = (Inr False, c')"
    using ret by (cases "func (client w)") auto
  have "0 \<le> calculate_backoff (w\<lparr>mgr_connected := True, client := c',
                        last_error := Some (IOError ''Write operation returned False''),
                        consecutive_failures := consecutive_failures w + 1\<rparr>)"
    using delay by (intro calculate_backoff_nonneg) simp
  then show ?thesis
    using conn f
    by (simp add: write_attempt_def ensure_connected_def except_clauses_def mgr_sleep_def Let_def
        not_less [symmetric])
qed

lemma write_attempts_all_false:
  assumes inv: "\<And>c. I c \<Longrightarrow>
                  op_is_connected ops c = Inr True \<and> fst (func c) = Inr False \<and> I (snd (func c))"
  shows "I (client w) \<Longrightarrow> 0 \<le> retry_delay w \<Longrightarrow>
         attempt + int k = retry_count w - 1 \<Longrightarrow>
         (\<exists>w'. write_attempts ops func (Suc k) attempt w
                  = (Inl (IOError ''Write operation returned False''), w')
             \<and> consecutive_failures w' = consecutive_failures w + Suc k
             \<and> client w' = ((\<lambda>c. snd (func c)) ^^ Suc k) (client w)
             \<and> length (sleeps w') = length (sleeps w) + k
             \<and> last_error w' = Some (IOError ''Write operation returned False''))"
proof (induction k arbitrary: attempt w)
  case 0
  then show ?case
    using inv [of "client w"] by (simp add: write_attempt_false Let_def)
next
  case (Suc k)
  define w1 where "w1 = w\<lparr>mgr_connected := True, client := snd (func (client w)),
                        last_error := Some (IOError ''Write operation returned False''),
                        consecutive_failures := consecutive_failures w + 1\<rparr>"
  define w2 where "w2 = w1\<lparr>sleeps := sleeps w @ [calculate_backoff w1]\<rparr>"
  have step: "write_attempt ops func attempt w = (Continue, w2)"
    using Suc.prems inv [of "client w"]
    by (simp add: write_attempt_false Let_def w1_def w2_def)
  have c2: "I (client w2)"
    using inv [of "client w"] Suc.prems(1) by (simp add: w2_def w1_def)
  have d2: "0 \<le> retry_delay w2" using Suc.prems(2) by (simp add: w2_def w1_def)
  have a2: "(attempt + 1) + int k = retry_count w2 - 1"
    using Suc.prems(3) by (simp add: w2_def w1_def)
  from Suc.IH [OF c2 d2 a2] obtain w' where
    r: "write_attempts ops func (Suc k) (attempt + 1) w2
          = (Inl (IOError ''Write operation returned False''), w')"
    and cf: "consecutive_failures w' = consecutive_failures w2 + Suc k"
    and cl: "client w' = ((\<lambda>c. snd (func c)) ^^ Suc k) (client w2)"
    and sl: "length (sleeps w') = length (sleeps w2) + k"
    and le: "last_error w' = Some (IOError ''Write operation returned False'')"
    by blast
  have "write_attempts ops func (Suc (Suc k)) attempt w
          = (Inl (IOError ''Write operation returned False''), w')"
    using step r by simp
  moreover have "consecutive_failures w' = consecutive_failures w + Suc (Suc k)"
    using cf by (simp add: w2_def w1_def)
  moreover have "client w' = ((\<lambda>c. snd (func c)) ^^ Suc (Suc k)) (client w)"
  proof -
    have "((\<lambda>c. snd (func c)) ^^ Suc (Suc k)) (client w)
            = ((\<lambda>c. snd (func c)) ^^ Suc k) (snd (func (client w)))"
      by (simp only: funpow_Suc_right [of "Suc k"] o_apply)
    then show ?thesis using cl by (simp add: w2_def w1_def)
  qed
  moreover have "length (sleeps w') = length (sleeps w) + Suc k"
    using sl by (simp add: w2_def w1_def)
  ultimately show ?case using le by blast
qed

text \<open>
  C8. Take a write closure that returns False without raising, on a client that stays
  connected (\<open>I\<close> is any property of the client that the closure keeps and that
  implies both). With an attempt budget \<open>retry_count\<close> of at least 1,
  \<open>write_with_retry\<close> does not return False: every False is handled as the
  \<open>IOError\<close> with the text \<open>Write operation returned False\<close>, the closure is run
  exactly \<open>retry_count\<close> times, the counter grows by \<open>retry_count\<close>, the call sleeps
  between the attempts (\<open>retry_count - 1\<close> times) and the \<open>IOError\<close> of the last
  attempt is raised to the caller.
\<close>

theorem C8_write_false_retried:
  assumes inv: "\<And>c. I c \<Longrightarrow>
                  op_is_connected ops c = Inr True \<and> fst (func c) = Inr False \<and> I (snd (func c))"
    and start: "I (client w)"
    and delay: "0 \<le> retry_delay w"
    and budget: "1 \<le> retry_count w"
  shows "fst (write_with_retry ops func w) = Inl (IOError ''Write operation returned False'')
       \<and> client (snd (write_with_retry ops func w))
           = ((\<lambda>c. snd (func c)) ^^ nat (retry_count w)) (client w)
       \<and> consecutive_failures (snd (write_with_retry ops func w))
           = consecutive_failures w + nat (retry_count w)
       \<and> length (sleeps (snd (write_with_retry ops func w)))
           = length (sleeps w) + (nat (retry_count w) - 1)"
proof -
  obtain k where k: "nat (retry_count w) = Suc k"
    using budget by (cases "nat (retry_count w)") auto
  then have a: "0 + int k = retry_count w - 1" by linarith
  from write_attempts_all_false [of I ops func w 0 k, OF inv start delay a] k
  show ?thesis by (auto simp: write_with_retry_def)
qed

theorem C8_write_false_retried_witness:
  "write_with_retry scripted_ops (scripted_write_coil 0 True)
     (mgr_init (scripted_client True [] False) 3 1 True)
   = (Inl (IOError ''Write operation returned False''),
      \<lparr>client = \<lparr>sc_up = True, sc_script = [], sc_connects = 0, sc_writes = 3,
                  sc_write_answer = False\<rparr>,
       retry_count = 3, retry_delay = 1, auto_reconnect = True, mgr_connected = True,
       consecutive_failures = 3,
       last_error = Some (IOError ''Write operation returned False''),
       sleeps = [2, 4]\<rparr>)"
proof -
  have inv: "\<And>c. sc_up c \<and> \<not> sc_write_answer c \<Longrightarrow>
               op_is_connected scripted_ops c = Inr True
             \<and> fst (scripted_write_coil 0 True c) = Inr False
             \<and> (sc_up (snd (scripted_write_coil 0 True c))
                  \<and> \<not> sc_write_answer (snd (scripted_write_coil 0 True c)))"
    by (simp add: scripted_ops_def scripted_write_coil_def)
  have "fst (write_with_retry scripted_ops (scripted_write_coil 0 True)
               (mgr_init (scripted_client True [] False) 3 1 True))
          = Inl (IOError ''Write operation returned False'')"
    using C8_write_false_retried [where I = "\<lambda>c. sc_up c \<and> \<not> sc_write_answer c"
        and ops = scripted_ops and func = "scripted_write_coil 0 True"
        and w = "mgr_init (scripted_client True [] False) 3 1 True", OF inv]
    by (simp add: mgr_init_def scripted_client_def)
  moreover have "snd (write_with_retry scripted_ops (scripted_write_coil 0 True)
               (mgr_init (scripted_client True [] False) 3 1 True))
          = \<lparr>client = \<lparr>sc_up = True, sc_script = [], sc_connects = 0, sc_writes = 3,
                  sc_write_answer = False\<rparr>,
       retry_count = 3, retry_delay = 1, auto_reconnect = True, mgr_connected = True,
       consecutive_failures = 3,
       last_error = Some (IOError ''Write operation returned False''),
       sleeps = [2, 4]\<rparr>"
    by (simp add: scripted_eval)
  ultimately show ?thesis by (simp add: prod_eq_iff)
qed

text \<open>With no attempt budget the loop body never runs and the call returns False.\<close>

lemma write_with_retry_no_budget:
  "retry_count w \<le> 0 \<Longrightarrow> write_with_retry ops func w = (Inr False, w)"
  by (simp add: write_with_retry_def)


section \<open>Simulated client: the motor coils and the simulation step\<close>

lemmas mock_eval =
  mock_connect_def mock_init_def mock_write_register_def mock_write_coil_def
  mock_read_coils_def mock_read_holding_registers_def mock_read_state_def
  mock_start_motor_def mock_ensure_connected_def simulate_behavior_def sample_draws_def
  mock_addresses Let_def

lemma upto_0_5: "[0..5::int] = [0, 1, 2, 3, 4, 5]"
  by code_simp

lemma upto_0_6: "[0..6::int] = [0, 1, 2, 3, 4, 5, 6]"
  by code_simp

text \<open>
  \<open>write_coil\<close> at the address of either motor coil leaves the two coils
  complementary, as its comment says.
\<close>

lemma write_coil_keeps_sync:
  assumes "plc_connected s" and "a = COIL_MOTOR_RUNNING \<or> a = COIL_MOTOR_STOPPED"
  shows "\<exists>x. coils (snd (mock_write_coil a v s)) COIL_MOTOR_RUNNING = Some x
           \<and> coils (snd (mock_write_coil a v s)) COIL_MOTOR_STOPPED = Some (\<not> x)"
  using assms
  by (auto simp: mock_write_coil_def mock_ensure_connected_def mock_addresses Let_def)

text \<open>
  C2. \<open>write_register\<close> at the motor speed register sets the motor-stopped coil from
  the value and leaves the motor-running coil alone. From the default state, after
  \<open>connect\<close> and \<open>write_register(100, 50)\<close> both coils are False; after \<open>connect\<close> and
  \<open>start_motor(0)\<close>, which writes the running coil and then speed 0, both are True.
\<close>

theorem C2_register_write_breaks_sync:
  "coils (mock_run [Connect, WriteRegister 100 50] mock_init) COIL_MOTOR_RUNNING = Some False
   \<and> coils (mock_run [Connect, WriteRegister 100 50] mock_init) COIL_MOTOR_STOPPED = Some False
   \<and> coils (snd (mock_start_motor 0 (snd (mock_connect mock_init)))) COIL_MOTOR_RUNNING
       = Some True
   \<and> coils (snd (mock_start_motor 0 (snd (mock_connect mock_init)))) COIL_MOTOR_STOPPED
       = Some True"
  by (simp add: mock_eval)

lemma read_coils_state: "snd (mock_read_coils a n s) = s"
  by (simp add: mock_read_coils_def split: option.splits)

text \<open>
  C7. \<open>read_coils\<close> never changes the state: it runs no simulation step. On a
  connected client with the motor running at speed 50, \<open>read_coils(0, 7)\<close> returns the
  coils and leaves current 0 and temperature 250 as they were, while
  \<open>read_holding_registers(100, 6)\<close> with noise 2 and heat 1 returns current 27 and
  temperature 251, one step; \<open>read_state\<close> with the same random values in both of its
  steps leaves temperature 252, two steps.
\<close>

theorem C7_reads_and_simulation:
  "snd (mock_read_coils a n s) = s
   \<and> mock_read_coils 0 7 (mock_run [Connect, WriteCoil 0 True, WriteRegister 100 50] mock_init)
       = (Inr [True, False, False, False, False, False, False],
          mock_run [Connect, WriteCoil 0 True, WriteRegister 100 50] mock_init)
   \<and> registers (mock_run [Connect, WriteCoil 0 True, WriteRegister 100 50] mock_init)
        REGISTER_MOTOR_CURRENT = Some 0
   \<and> registers (mock_run [Connect, WriteCoil 0 True, WriteRegister 100 50] mock_init)
        REGISTER_TEMPERATURE = Some 250
   \<and> fst (mock_read_holding_registers sample_draws 100 6
        (mock_run [Connect, WriteCoil 0 True, WriteRegister 100 50] mock_init))
       = Inr [50, 27, 251, 100, 0, 0]
   \<and> registers (mock_run [Connect, WriteCoil 0 True, WriteRegister 100 50,
                            ReadState sample_draws sample_draws 0] mock_init)
        REGISTER_TEMPERATURE = Some 252"
  by (simp add: read_coils_state mock_eval upto_0_5 upto_0_6)

end
